theory Spec2Isabelle
  imports Complex_Main "HOL-Library.Sublist"
begin

section \<open>The project orchestrator of aider-desk (src/main/project.ts)\<close>

text \<open>
  The class \<open>Project\<close> supervises one worker process and keeps the transient state of the
  prompt queue, the open question, the remembered answers and the two cost totals.

  Conventions of the embedding. A JavaScript number is modelled by its mathematical value
  (\<open>rat\<close>), an optional field by \<open>option\<close>, a string by \<open>string\<close> (code units below 256),
  a \<open>Map\<close> by a partial function. A test \<open>if (x)\<close> is JavaScript truthiness: an optional
  number is truthy when present and not zero, an optional string when present and not
  empty, an object when present. The class runs on one thread; a method body between two
  \<open>await\<close>s is one atomic transition. What a method does to the outside (messages handed
  to connectors, events sent to the window, promises resolved) is appended to traces kept
  in the state. Calls of \<open>logger\<close> change nothing and are left out; the constant \<open>baseDir\<close>
  carried by window events is left out as well.
\<close>

subsection \<open>Data\<close>

text \<open>The remembered answers are the strings \<open>'y'\<close> and \<open>'n'\<close>.\<close>

datatype yn = Y | N

fun yn_str :: "yn \<Rightarrow> string" where
  "yn_str Y = ''y''"
| "yn_str N = ''n''"

text \<open>
  \<open>QuestionData\<close>, \<open>UsageReportData\<close> and the other data types are declared in
  \<open>@common/types\<close>, outside the sources at hand; the records hold the fields that
  \<open>project.ts\<close> reads and writes, optional where it tests them.
\<close>

record questionData =
  q_text :: string
  q_subject :: "string option"
  q_key :: "string option"
  q_internal :: bool

record usageReportData =
  sentTokens :: rat
  receivedTokens :: rat
  messageCost :: rat
  report_aiderTotalCost :: "rat option"
  report_mcpAgentTotalCost :: "rat option"

text \<open>
  Modelled from the spec: the type \<open>MessageAction\<close> of the connector interest tags is
  declared in \<open>./messages\<close>, outside the sources at hand; these are the outbound command
  categories the specification lists.
\<close>

datatype messageAction =
    ActAddFile | ActDropFile | ActAddMessage | ActPrompt | ActRunCommand
  | ActAnswerQuestion | ActInterruptResponse | ActApplyEdits | ActSetModels

text \<open>
  \<open>ResponseMessage\<close>, as \<open>processResponseMessage\<close> reads it. The usage report comes as
  free text or already structured.
\<close>

record responseMessage =
  rm_id :: "string option"
  rm_content :: string
  rm_reflectedMessage :: "string option"
  rm_finished :: bool
  rm_usageReport :: "(string + usageReportData) option"
  rm_editedFiles :: "string list option"
  rm_commitHash :: "string option"
  rm_commitMessage :: "string option"
  rm_diff :: "string option"

record connector =
  connectorId :: nat
  listenTo :: "messageAction list"

text \<open>
  What a connector is handed: \<open>sendPromptMessage(prompt, mode, architectModel, promptId,
  clearContext)\<close> and \<open>sendAnswerQuestionMessage(answer)\<close>.
\<close>

datatype connectorMessage =
    PromptMessage string "string option" "string option" "nat option" bool
  | AnswerQuestionMessage yn

datatype messageRole = User | Assistant

text \<open>A message identifier: one made by \<open>uuidv4()\<close>, or the \<open>id\<close> a message came with.\<close>

datatype ident = Uuid nat | Named string

record responseCompletedData =
  rc_messageId :: "ident option"
  rc_content :: string
  rc_reflectedMessage :: "string option"
  rc_editedFiles :: "string list option"
  rc_commitHash :: "string option"
  rc_commitMessage :: "string option"
  rc_diff :: "string option"
  rc_usageReport :: "usageReportData option"

text \<open>Events sent to the window with \<open>mainWindow.webContents.send\<close>.\<close>

datatype uiEvent =
    UiAskQuestion questionData
  | UiResponseChunk "ident option" string "string option"
  | UiResponseCompleted responseCompletedData
  | UiUserMessage string "string option"
  | UiLog string "string option"
  | UiInputHistoryUpdated "string list"
  | UiClearProject bool bool

text \<open>
  The two kinds of callbacks that \<open>runPromptResolves\<close> holds: the wrapper
  \<open>() => resolve()\<close> that \<open>runPrompt\<close> pushes while it waits for the active prompt, and the
  \<open>resolve\<close> of the promise that \<open>sendPrompt\<close> returns. The number names the invocation
  of \<open>runPrompt\<close> that is suspended on it.
\<close>

datatype resolver = QueuedCaller nat | PromptWaiter nat

text \<open>Where an invocation of \<open>runPrompt(prompt, mode)\<close> stands.\<close>

datatype task =
    AwaitActivePrompt string "string option"
  | AwaitHistoryWrite string "string option"
  | AwaitAgent string
  | AwaitResponses string
  | Returned "responseCompletedData list"

record contextFile =
  cf_path :: string
  cf_readOnly :: bool

record project =
  process :: "nat option"
  connectors :: "connector list"
  currentCommand :: "string option"
  currentQuestion :: "questionData option"
  currentQuestionPromiseResolve :: "nat option"
  questionAnswers :: "string \<rightharpoonup> yn"
  allTrackedFiles :: "string list"
  currentResponseMessageId :: "nat option"
  currentPromptId :: "nat option"
  currentPromptResponses :: "responseCompletedData list"
  runPromptResolves :: "resolver list"
  commandOutputs :: "string \<rightharpoonup> string"
  mcpAgentTotalCost :: rat
  aiderTotalCost :: rat
  \<comment> \<open>the session manager, as far as this class reads and writes it\<close>
  contextFiles :: "contextFile list"
  contextMessages :: "(messageRole \<times> string) list"
  \<comment> \<open>the project settings of the store\<close>
  architectModel :: "string option"
  \<comment> \<open>the input history file (\<open>None\<close>: it does not exist)\<close>
  historyFile :: "string option"
  \<comment> \<open>the source of \<open>uuidv4()\<close>\<close>
  uuidCount :: nat
  \<comment> \<open>suspended and finished invocations of \<open>runPrompt\<close>\<close>
  tasks :: "task list"
  \<comment> \<open>traces of what left the class\<close>
  sent :: "(nat \<times> connectorMessage) list"
  uiEvents :: "uiEvent list"
  questionResolutions :: "(nat \<times> yn \<times> string option) list"

subsection \<open>Strings\<close>

definition nl :: char where
  "nl = CHR 0x0A"

text \<open>
  \<open>String.prototype.trim\<close> removes white space and line terminators at both ends: tab,
  line feed, vertical tab, form feed, carriage return, space and no-break space are the
  ones below 256.
\<close>

definition is_ws :: "char \<Rightarrow> bool" where
  "is_ws c = (c \<in> set [CHR 0x09, CHR 0x0A, CHR 0x0B, CHR 0x0C, CHR 0x0D, CHR 0x20, CHR 0xA0])"

definition trim :: "string \<Rightarrow> string" where
  "trim s = rev (dropWhile is_ws (rev (dropWhile is_ws s)))"

text \<open>
  \<open>String.prototype.toLowerCase\<close> on code units below 256: the letters A to Z and the
  Latin-1 capitals 0xC0 to 0xDE (0xD7, the multiplication sign, apart) move up by 32.
\<close>

definition upper_chars :: string where
  "upper_chars = ''ABCDEFGHIJKLMNOPQRSTUVWXYZ'' @
       [CHR 0xC0, CHR 0xC1, CHR 0xC2, CHR 0xC3, CHR 0xC4, CHR 0xC5, CHR 0xC6, CHR 0xC7,
        CHR 0xC8, CHR 0xC9, CHR 0xCA, CHR 0xCB, CHR 0xCC, CHR 0xCD, CHR 0xCE, CHR 0xCF,
        CHR 0xD0, CHR 0xD1, CHR 0xD2, CHR 0xD3, CHR 0xD4, CHR 0xD5, CHR 0xD6, CHR 0xD8,
        CHR 0xD9, CHR 0xDA, CHR 0xDB, CHR 0xDC, CHR 0xDD, CHR 0xDE]"

definition lower_chars :: string where
  "lower_chars = ''abcdefghijklmnopqrstuvwxyz'' @
       [CHR 0xE0, CHR 0xE1, CHR 0xE2, CHR 0xE3, CHR 0xE4, CHR 0xE5, CHR 0xE6, CHR 0xE7,
        CHR 0xE8, CHR 0xE9, CHR 0xEA, CHR 0xEB, CHR 0xEC, CHR 0xED, CHR 0xEE, CHR 0xEF,
        CHR 0xF0, CHR 0xF1, CHR 0xF2, CHR 0xF3, CHR 0xF4, CHR 0xF5, CHR 0xF6, CHR 0xF8,
        CHR 0xF9, CHR 0xFA, CHR 0xFB, CHR 0xFC, CHR 0xFD, CHR 0xFE]"

definition lower_char :: "char \<Rightarrow> char" where
  "lower_char c = (case map_of (zip upper_chars lower_chars) c of Some l \<Rightarrow> l | None \<Rightarrow> c)"

definition toLowerCase :: "string \<Rightarrow> string" where
  "toLowerCase s = map lower_char s"

subsection \<open>Routing to connectors\<close>

text \<open>
  \<^verbatim>\<open>
  private findMessageConnectors(action: MessageAction): Connector[] {
    return this.connectors.filter((connector) => connector.listenTo.includes(action));
  }
  \<close>
\<close>

definition findMessageConnectors :: "messageAction \<Rightarrow> project \<Rightarrow> connector list" where
  "findMessageConnectors action p = filter (\<lambda>c. action \<in> set (listenTo c)) (connectors p)"

text \<open>\<open>this.findMessageConnectors(action).forEach((connector) => connector.send...(m))\<close>\<close>

definition route :: "messageAction \<Rightarrow> connectorMessage \<Rightarrow> project \<Rightarrow> project" where
  "route action m p =
     p\<lparr>sent := sent p @ map (\<lambda>c. (connectorId c, m)) (findMessageConnectors action p)\<rparr>"

definition uiSend :: "uiEvent \<Rightarrow> project \<Rightarrow> project" where
  "uiSend e p = p\<lparr>uiEvents := uiEvents p @ [e]\<rparr>"

subsection \<open>Cost accounting\<close>

text \<open>\<open>if (v)\<close> for an optional number \<open>v\<close>: absent and zero are both falsy.\<close>

definition truthy_num :: "rat option \<Rightarrow> bool" where
  "truthy_num v = (case v of None \<Rightarrow> False | Some x \<Rightarrow> x \<noteq> 0)"

text \<open>
  \<^verbatim>\<open>
  private updateTotalCosts(usageReport: UsageReportData) {
    if (usageReport.mcpAgentTotalCost) {
      this.mcpAgentTotalCost = usageReport.mcpAgentTotalCost;
    }
    if (usageReport.aiderTotalCost) {
      this.aiderTotalCost = usageReport.aiderTotalCost;
    }
  }
  \<close>
\<close>

definition updateTotalCosts :: "usageReportData \<Rightarrow> project \<Rightarrow> project" where
  "updateTotalCosts r p =
     (let p1 = (if truthy_num (report_mcpAgentTotalCost r)
                then p\<lparr>mcpAgentTotalCost := the (report_mcpAgentTotalCost r)\<rparr>
                else p)
      in if truthy_num (report_aiderTotalCost r)
         then p1\<lparr>aiderTotalCost := the (report_aiderTotalCost r)\<rparr>
         else p1)"

subsection \<open>Questions\<close>

text \<open>
  \<^verbatim>\<open>
  private getQuestionKey(question: QuestionData): string {
    return question.key || `${question.text}_${question.subject || ''}`;
  }
  \<close>
\<close>

definition str_or :: "string option \<Rightarrow> string \<Rightarrow> string" where
  "str_or v d = (case v of None \<Rightarrow> d | Some s \<Rightarrow> if s = [] then d else s)"

definition getQuestionKey :: "questionData \<Rightarrow> string" where
  "getQuestionKey q = str_or (q_key q) (q_text q @ ''_'' @ str_or (q_subject q) [])"

text \<open>
  \<open>answerQuestion(answer, userInput?)\<close> returns whether a waiter was resolved. Resolving
  the waiter \<open>w\<close> with \<open>[yesNoAnswer, userInput]\<close> is recorded in \<open>questionResolutions\<close>.
\<close>

definition answerQuestion :: "string \<Rightarrow> string option \<Rightarrow> project \<Rightarrow> bool \<times> project" where
  "answerQuestion answer userInput p =
     (case currentQuestion p of
        None \<Rightarrow> (False, p)
      | Some q \<Rightarrow>
          let normalized = toLowerCase answer;
              yesNoAnswer = (if normalized = ''a'' \<or> normalized = ''y'' then Y else N);
              p1 = (if normalized = ''d'' \<or> normalized = ''a''
                    then p\<lparr>questionAnswers := (questionAnswers p)(getQuestionKey q := Some yesNoAnswer)\<rparr>
                    else p);
              p2 = (if \<not> q_internal q
                    then route ActAnswerQuestion (AnswerQuestionMessage yesNoAnswer) p1
                    else p1);
              p3 = p2\<lparr>currentQuestion := None\<rparr>
          in (case currentQuestionPromiseResolve p3 of
                Some w \<Rightarrow>
                  (True, p3\<lparr>questionResolutions := questionResolutions p3 @ [(w, yesNoAnswer, userInput)],
                            currentQuestionPromiseResolve := None\<rparr>)
              | None \<Rightarrow> (False, p3)))"

text \<open>
  \<open>askQuestion(questionData)\<close> returns a promise: one that is already resolved with
  \<open>[storedAnswer, undefined]\<close>, or a new pending one, named \<open>w\<close> here, whose \<open>resolve\<close>
  becomes \<open>currentQuestionPromiseResolve\<close>.
\<close>

datatype askResult = Resolved yn "string option" | Pending nat

definition askQuestion :: "questionData \<Rightarrow> nat \<Rightarrow> project \<Rightarrow> askResult \<times> project" where
  "askQuestion q w p =
     (let p1 = p\<lparr>currentQuestion := Some q\<rparr>
      in case questionAnswers p1 (getQuestionKey q) of
           Some storedAnswer \<Rightarrow>
             (Resolved storedAnswer None,
              if \<not> q_internal q then snd (answerQuestion (yn_str storedAnswer) None p1) else p1)
         | None \<Rightarrow>
             (Pending w, uiSend (UiAskQuestion q) (p1\<lparr>currentQuestionPromiseResolve := Some w\<rparr>)))"

subsection \<open>Input history\<close>

text \<open>\<open>content.split('\n')\<close>: a string with \<open>n\<close> line feeds has \<open>n + 1\<close> lines.\<close>

fun split_nl :: "string \<Rightarrow> string list" where
  "split_nl [] = [[]]"
| "split_nl (c # cs) =
     (if c = nl then [] # split_nl cs
      else (case split_nl cs of [] \<Rightarrow> [[c]] | l # ls \<Rightarrow> (c # l) # ls))"

text \<open>\<open>message.replace(/\n/g, '\n+')\<close>\<close>

definition replace_nl :: "string \<Rightarrow> string" where
  "replace_nl message = concat (map (\<lambda>c. if c = nl then [nl, CHR ''+''] else [c]) message)"

text \<open>
  \<^verbatim>\<open>
  const timestamp = new Date().toISOString();
  const formattedMessage = `\n# ${timestamp}\n+${message.replace(/\n/g, '\n+')}\n`;
  await fs.appendFile(historyPath, formattedMessage);
  \<close>
  The file is its content, \<open>None\<close> when it does not exist; \<open>appendFile\<close> creates it.
\<close>

definition formattedMessage :: "string \<Rightarrow> string \<Rightarrow> string" where
  "formattedMessage timestamp message =
     [nl] @ ''# '' @ timestamp @ [nl] @ ''+'' @ replace_nl message @ [nl]"

definition appendFile :: "string \<Rightarrow> string option \<Rightarrow> string option" where
  "appendFile d f = (case f of None \<Rightarrow> Some d | Some c \<Rightarrow> Some (c @ d))"

text \<open>The loop of \<open>loadInputHistory\<close> over the lines, on the pair \<open>(history, currentInput)\<close>.\<close>

fun history_line :: "string \<Rightarrow> string list \<times> string \<Rightarrow> string list \<times> string" where
  "history_line line (history, currentInput) =
     (if prefix ''# '' line
      then (if currentInput \<noteq> [] then (history @ [trim currentInput], []) else (history, currentInput))
      else if prefix ''+'' line then (history, currentInput @ drop 1 line @ [nl])
      else (history, currentInput))"

definition history_lines :: "string list \<Rightarrow> string list \<times> string \<Rightarrow> string list \<times> string" where
  "history_lines lines st = fold history_line lines st"

text \<open>
  \<open>loadInputHistory()\<close>: a file that cannot be read gives the empty history (the
  exception of \<open>readFile\<close> is caught), and so does an empty file.
\<close>

definition loadInputHistory :: "string option \<Rightarrow> string list" where
  "loadInputHistory f =
     (case f of
        None \<Rightarrow> []
      | Some fileContent \<Rightarrow>
          if fileContent = [] then []
          else (case history_lines (split_nl fileContent) ([], []) of
                  (history, currentInput) \<Rightarrow>
                    rev (if currentInput \<noteq> [] then history @ [trim currentInput] else history)))"

text \<open>
  \<open>addToInputHistory(message)\<close>, the append having succeeded at \<open>timestamp\<close>: the file is
  extended and the window is sent the history read back from it.
\<close>

definition addToInputHistory :: "string \<Rightarrow> string \<Rightarrow> project \<Rightarrow> project" where
  "addToInputHistory timestamp message p =
     (let f = appendFile (formattedMessage timestamp message) (historyFile p)
      in uiSend (UiInputHistoryUpdated (loadInputHistory f)) (p\<lparr>historyFile := f\<rparr>))"

subsection \<open>The session manager and the window\<close>

text \<open>
  Modelled from the spec: the session manager (\<open>./session-manager\<close>, outside the sources
  at hand) keeps the accumulated conversation and the context files;
  \<open>addContextMessage(role, content)\<close> appends a record to the conversation,
  \<open>clearMessages()\<close> empties it, and \<open>getContextFiles()\<close> returns the context files.
\<close>

definition addContextMessage :: "messageRole \<Rightarrow> string \<Rightarrow> project \<Rightarrow> project" where
  "addContextMessage role c p = p\<lparr>contextMessages := contextMessages p @ [(role, c)]\<rparr>"

definition getContextFiles :: "project \<Rightarrow> contextFile list" where
  "getContextFiles p = contextFiles p"

definition addUserMessage :: "string \<Rightarrow> string option \<Rightarrow> project \<Rightarrow> project" where
  "addUserMessage c mode p = uiSend (UiUserMessage c mode) p"

definition addLogMessage :: "string \<Rightarrow> string option \<Rightarrow> project \<Rightarrow> project" where
  "addLogMessage level message p = uiSend (UiLog level message) p"

text \<open>
  \<^verbatim>\<open>
  public closeCommandOutput() {
    if (!this.currentCommand) {
      return;
    }
    const command = this.currentCommand;
    const output = this.commandOutputs.get(command);
    if (output && output.trim()) {
      this.sessionManager.addContextMessage(MessageRole.Assistant, `${command}\n\n${output}`);
    }
    this.commandOutputs.delete(command);
    this.currentCommand = null;
  }
  \<close>
\<close>

definition closeCommandOutput :: "project \<Rightarrow> project" where
  "closeCommandOutput p =
     (case currentCommand p of
        None \<Rightarrow> p
      | Some command \<Rightarrow>
          if command = [] then p
          else
            let p1 = (case commandOutputs p command of
                        None \<Rightarrow> p
                      | Some output \<Rightarrow>
                          if output \<noteq> [] \<and> trim output \<noteq> []
                          then addContextMessage Assistant (command @ [nl, nl] @ output) p
                          else p)
            in p1\<lparr>commandOutputs := (commandOutputs p1)(command := None), currentCommand := None\<rparr>)"

subsection \<open>Running prompts\<close>

text \<open>\<open>this.store.getProjectSettings(this.baseDir).architectModel || null\<close>\<close>

definition getArchitectModel :: "project \<Rightarrow> string option" where
  "getArchitectModel p =
     (case architectModel p of None \<Rightarrow> None | Some m \<Rightarrow> if m = [] then None else Some m)"

text \<open>
  \<^verbatim>\<open>
  public sendPrompt(prompt: string, mode?: Mode, clearContext = false): Promise<ResponseCompletedData[]> {
    this.currentPromptResponses = [];
    this.currentResponseMessageId = null;
    this.currentPromptId = uuidv4();

    this.findMessageConnectors('prompt').forEach((connector) =>
      connector.sendPromptMessage(prompt, mode, this.getArchitectModel(), this.currentPromptId, clearContext),
    );

    // Wait for prompt to finish and return collected responses
    return new Promise((resolve) => {
      this.runPromptResolves.push(resolve);
    });
  }
  \<close>
  The invocation \<open>c\<close> of \<open>runPrompt\<close> is the one that awaits the promise returned.
\<close>

definition sendPrompt :: "nat \<Rightarrow> string \<Rightarrow> string option \<Rightarrow> bool \<Rightarrow> project \<Rightarrow> project" where
  "sendPrompt c prompt mode clearContext p =
     (let p1 = p\<lparr>currentPromptResponses := [], currentResponseMessageId := None,
                 currentPromptId := Some (uuidCount p), uuidCount := Suc (uuidCount p)\<rparr>;
          p2 = route ActPrompt
                 (PromptMessage prompt mode (getArchitectModel p1) (currentPromptId p1) clearContext) p1
      in p2\<lparr>runPromptResolves := runPromptResolves p2 @ [PromptWaiter c]\<rparr>)"

text \<open>
  The first section of \<open>runPrompt(prompt, mode)\<close>, up to its first \<open>await\<close>. The new
  invocation gets the next free number. It returns \<open>[]\<close> at once when its prompt answered
  the open question; it waits in \<open>runPromptResolves\<close> when a prompt is running; otherwise it
  goes on to \<open>addToInputHistory\<close>, where it is suspended on the file write.
  \<^verbatim>\<open>
    if (this.currentQuestion) {
      if (this.answerQuestion('n', prompt)) {
        // processed by the answerQuestion function
        return [];
      }
    }

    // If a prompt is already running, wait for it to finish
    if (this.currentPromptId) {
      logger.info('Waiting for prompt to finish...');
      await new Promise<void>((resolve) => {
        this.runPromptResolves.push(() => resolve());
      });
    }
    ...
    await this.addToInputHistory(prompt);
  \<close>
\<close>

definition runPrompt :: "string \<Rightarrow> string option \<Rightarrow> project \<Rightarrow> project" where
  "runPrompt prompt mode p =
     (let c = length (tasks p);
          r = (case currentQuestion p of
                 None \<Rightarrow> (False, p)
               | Some q \<Rightarrow> answerQuestion ''n'' (Some prompt) p);
          p1 = snd r
      in if fst r then p1\<lparr>tasks := tasks p1 @ [Returned []]\<rparr>
         else if currentPromptId p1 \<noteq> None
         then p1\<lparr>runPromptResolves := runPromptResolves p1 @ [QueuedCaller c],
                 tasks := tasks p1 @ [AwaitActivePrompt prompt mode]\<rparr>
         else p1\<lparr>tasks := tasks p1 @ [AwaitHistoryWrite prompt mode]\<rparr>)"

text \<open>
  The section of invocation \<open>c\<close> after \<open>await this.addToInputHistory(prompt)\<close>; \<open>written\<close>
  is the time stamp of the entry, or \<open>None\<close> when the append failed (the exception is
  caught inside \<open>addToInputHistory\<close>). The agent is another class: an invocation in agent
  mode stays at \<open>AwaitAgent\<close>.
  \<^verbatim>\<open>
    this.addUserMessage(prompt, mode);
    this.addLogMessage('loading');

    if (mode === 'agent') {
      const agentMessages = await this.agent.runAgent(this, prompt);
      ...
    } else {
      const responses = await this.sendPrompt(prompt, mode);
  \<close>
\<close>

definition historyWritten :: "nat \<Rightarrow> string option \<Rightarrow> project \<Rightarrow> project" where
  "historyWritten c written p =
     (if c < length (tasks p)
      then (case tasks p ! c of
              AwaitHistoryWrite prompt mode \<Rightarrow>
                let p1 = (case written of
                            None \<Rightarrow> p
                          | Some timestamp \<Rightarrow> addToInputHistory timestamp prompt p);
                    p2 = addLogMessage ''loading'' None (addUserMessage prompt mode p1)
                in if mode = Some ''agent''
                   then p2\<lparr>tasks := (tasks p2)[c := AwaitAgent prompt]\<rparr>
                   else (sendPrompt c prompt mode False p2)\<lparr>tasks := (tasks p2)[c := AwaitResponses prompt]\<rparr>
            | _ \<Rightarrow> p)
      else p)"

text \<open>
  The end of \<open>runPrompt\<close>, once the promise of \<open>sendPrompt\<close> is resolved with \<open>responses\<close>.
  \<^verbatim>\<open>
      this.sessionManager.addContextMessage(MessageRole.User, prompt);
      for (const response of responses) {
        if (response.reflectedMessage) {
          this.sessionManager.addContextMessage(MessageRole.User, response.reflectedMessage);
        }
        if (response.content) {
          this.sessionManager.addContextMessage(MessageRole.Assistant, response.content);
        }
      }
      return responses;
  \<close>
\<close>

definition addResponseMessages :: "responseCompletedData \<Rightarrow> project \<Rightarrow> project" where
  "addResponseMessages response p =
     (let p1 = (case rc_reflectedMessage response of
                  None \<Rightarrow> p
                | Some m \<Rightarrow> if m \<noteq> [] then addContextMessage User m p else p)
      in if rc_content response \<noteq> [] then addContextMessage Assistant (rc_content response) p1 else p1)"

text \<open>
  Calling a callback of \<open>runPromptResolves\<close> with \<open>responses\<close> resolves a promise; the
  invocation suspended on it continues once the calling section has ended. A queued
  invocation ignores the value and goes on to \<open>addToInputHistory\<close>; the invocation that
  awaits \<open>sendPrompt\<close> records the conversation and returns \<open>responses\<close>.
\<close>

fun resume :: "responseCompletedData list \<Rightarrow> resolver \<Rightarrow> project \<Rightarrow> project" where
  "resume responses (QueuedCaller c) p =
     (if c < length (tasks p)
      then (case tasks p ! c of
              AwaitActivePrompt prompt mode \<Rightarrow> p\<lparr>tasks := (tasks p)[c := AwaitHistoryWrite prompt mode]\<rparr>
            | _ \<Rightarrow> p)
      else p)"
| "resume responses (PromptWaiter c) p =
     (if c < length (tasks p)
      then (case tasks p ! c of
              AwaitResponses prompt \<Rightarrow>
                (fold addResponseMessages responses (addContextMessage User prompt p))
                  \<lparr>tasks := (tasks p)[c := Returned responses]\<rparr>
            | _ \<Rightarrow> p)
      else p)"

text \<open>
  \<^verbatim>\<open>
  public promptFinished() {
    if (this.currentResponseMessageId) {
      this.mainWindow.webContents.send('response-completed', {
        messageId: this.currentResponseMessageId,
        baseDir: this.baseDir,
        content: '',
      });
      this.currentResponseMessageId = null;
    }

    // Notify waiting prompts with collected responses
    const responses = [...this.currentPromptResponses];
    this.currentPromptResponses = [];
    this.currentPromptId = null;
    this.closeCommandOutput();

    while (this.runPromptResolves.length) {
      const resolve = this.runPromptResolves.shift();
      if (resolve) {
        resolve(responses);
      }
    }
  }
  \<close>
\<close>

definition promptFinished :: "project \<Rightarrow> project" where
  "promptFinished p =
     (let p1 = (case currentResponseMessageId p of
                  None \<Rightarrow> p
                | Some i \<Rightarrow>
                    (uiSend (UiResponseCompleted
                       \<lparr>rc_messageId = Some (Uuid i), rc_content = [], rc_reflectedMessage = None,
                        rc_editedFiles = None, rc_commitHash = None, rc_commitMessage = None,
                        rc_diff = None, rc_usageReport = None\<rparr>) p)
                    \<lparr>currentResponseMessageId := None\<rparr>);
          responses = currentPromptResponses p1;
          p2 = closeCommandOutput (p1\<lparr>currentPromptResponses := [], currentPromptId := None\<rparr>);
          resolves = runPromptResolves p2
      in fold (resume responses) resolves (p2\<lparr>runPromptResolves := []\<rparr>))"

subsection \<open>Stopping the worker\<close>

text \<open>
  \<open>killAider()\<close>; \<open>err\<close> is what \<open>treeKill\<close> hands its callback (\<open>None\<close>: the process tree is
  gone). The result is the exception thrown, if any, and the state. The liveness marker
  file is not part of the state.
  \<^verbatim>\<open>
    if (this.process) {
      try {
        await new Promise<void>((resolve, reject) => {
          treeKill(this.process!.pid!, 'SIGKILL', (err) => {
            if (err) { reject(err); } else { this.removeAiderProcessPidFile(); resolve(); }
          });
        });

        this.currentCommand = null;
        this.currentQuestion = null;
        this.currentResponseMessageId = null;
        this.currentPromptId = null;
        this.currentPromptResponses = [];

        this.runPromptResolves.forEach((resolve) => resolve([]));
        this.runPromptResolves = [];

        this.sessionManager.clearMessages();
      } catch (error: unknown) {
        throw error;
      } finally {
        this.process = null;
      }
    }
  \<close>
\<close>

definition killAider :: "string option \<Rightarrow> project \<Rightarrow> string option \<times> project" where
  "killAider err p =
     (case process p of
        None \<Rightarrow> (None, p)
      | Some pid \<Rightarrow>
          (case err of
             Some e \<Rightarrow> (Some e, p\<lparr>process := None\<rparr>)
           | None \<Rightarrow>
               let p1 = p\<lparr>currentCommand := None, currentQuestion := None,
                          currentResponseMessageId := None, currentPromptId := None,
                          currentPromptResponses := []\<rparr>;
                   resolves = runPromptResolves p1;
                   p2 = p1\<lparr>runPromptResolves := [], contextMessages := [], process := None\<rparr>
               in (None, fold (resume []) resolves p2)))"

text \<open>
  \<^verbatim>\<open>
  public async close() {
    this.mainWindow.webContents.send('clear-project', this.baseDir, true, true);
    await this.killAider();
  }
  \<close>
\<close>

definition close :: "string option \<Rightarrow> project \<Rightarrow> string option \<times> project" where
  "close err p = killAider err (uiSend (UiClearProject True True) p)"

text \<open>
  \<open>runAider()\<close>, as far as the process handle goes: a worker still held is killed first,
  then \<open>this.process = spawn(...)\<close>.
\<close>

definition runAider :: "string option \<Rightarrow> nat \<Rightarrow> project \<Rightarrow> string option \<times> project" where
  "runAider err pid p =
     (case killAider err p of
        (Some e, p1) \<Rightarrow> (Some e, p1)
      | (None, p1) \<Rightarrow> (None, p1\<lparr>process := Some pid\<rparr>))"

subsection \<open>Completed responses and the cost suffix\<close>

text \<open>The decimal digits of a natural number, without leading zeros (\<open>0\<close> is \<open>"0"\<close>).\<close>

fun digits :: "nat \<Rightarrow> string" where
  "digits n =
     (if n < 10 then [''0123456789'' ! n]
      else digits (n div 10) @ [''0123456789'' ! (n mod 10)])"

declare digits.simps [simp del]

text \<open>
  \<open>Number.prototype.toFixed(f)\<close> as ECMAScript defines it on the mathematical value \<open>x\<close> of
  the number, for magnitudes below \<open>10^21\<close> (from there on JavaScript switches to the
  exponential notation): a minus sign when \<open>x < 0\<close>; \<open>n\<close> the integer for which
  \<open>n / 10^f - |x|\<close> is closest to zero, the larger one of two; the digits of \<open>n\<close>, padded
  with zeros to \<open>f + 1\<close> digits, with the point before the last \<open>f\<close>.
\<close>

definition toFixed :: "nat \<Rightarrow> rat \<Rightarrow> string" where
  "toFixed f x =
     (let s = (if x < 0 then ''-'' else []);
          n = nat \<lfloor>\<bar>x\<bar> * 10 ^ f + 1 / 2\<rfloor>;
          m = digits n
      in if f = 0 then s @ m
         else
           let m = (if length m \<le> f then replicate (f + 1 - length m) (CHR ''0'') @ m else m);
               k = length m
           in s @ take (k - f) m @ ''.'' @ drop (k - f) m)"

text \<open>
  \<open>processResponseMessage(message)\<close> returns \<open>this.currentResponseMessageId\<close>. The function
  \<open>parseUsageReport\<close> of \<open>@common/utils\<close> is a parameter.
  \<^verbatim>\<open>
      const usageReport = message.usageReport
        ? typeof message.usageReport === 'string'
          ? parseUsageReport(message.usageReport)
          : message.usageReport
        : undefined;

      if (usageReport) {
        this.updateTotalCosts(usageReport);
      }
      let commitMessage = message.commitMessage;
      if (commitMessage && usageReport) {
        const inputTokensK = (usageReport.sentTokens / 1000).toFixed(1);
        const outputTokensK = (usageReport.receivedTokens / 1000).toFixed(1);
        const cost = usageReport.messageCost.toFixed(3);
        commitMessage += ` i${inputTokensK}k o${outputTokensK}k $${cost}`;
      }
  \<close>
\<close>

definition messageUsageReport :: "(string \<Rightarrow> usageReportData) \<Rightarrow> responseMessage \<Rightarrow> usageReportData option" where
  "messageUsageReport parseUsageReport message =
     (case rm_usageReport message of
        None \<Rightarrow> None
      | Some (Inl s) \<Rightarrow> if s = [] then None else Some (parseUsageReport s)
      | Some (Inr u) \<Rightarrow> Some u)"

definition messageCommitMessage :: "responseMessage \<Rightarrow> usageReportData option \<Rightarrow> string option" where
  "messageCommitMessage message usageReport =
     (case rm_commitMessage message of
        None \<Rightarrow> None
      | Some commitMessage \<Rightarrow>
          (case usageReport of
             None \<Rightarrow> Some commitMessage
           | Some u \<Rightarrow>
               if commitMessage = [] then Some commitMessage
               else
                 let inputTokensK = toFixed 1 (sentTokens u / 1000);
                     outputTokensK = toFixed 1 (receivedTokens u / 1000);
                     cost = toFixed 3 (messageCost u)
                 in Some (commitMessage @ '' i'' @ inputTokensK @ ''k o'' @ outputTokensK @ ''k $'' @ cost)))"

definition responseMessageId :: "responseMessage \<Rightarrow> project \<Rightarrow> ident option" where
  "responseMessageId message p =
     (case rm_id message of
        None \<Rightarrow> map_option Uuid (currentResponseMessageId p)
      | Some i \<Rightarrow> if i = [] then map_option Uuid (currentResponseMessageId p) else Some (Named i))"

definition processResponseMessage ::
    "(string \<Rightarrow> usageReportData) \<Rightarrow> responseMessage \<Rightarrow> project \<Rightarrow> nat option \<times> project" where
  "processResponseMessage parseUsageReport message p =
     (let p0 = (if currentResponseMessageId p = None
                then p\<lparr>currentResponseMessageId := Some (uuidCount p), uuidCount := Suc (uuidCount p)\<rparr>
                else p)
      in if \<not> rm_finished message
         then (currentResponseMessageId p0,
               uiSend (UiResponseChunk (responseMessageId message p0) (rm_content message)
                        (rm_reflectedMessage message)) p0)
         else
           let usageReport = messageUsageReport parseUsageReport message;
               p1 = (case usageReport of None \<Rightarrow> p0 | Some u \<Rightarrow> updateTotalCosts u p0);
               d = \<lparr>rc_messageId = responseMessageId message p1, rc_content = rm_content message,
                    rc_reflectedMessage = rm_reflectedMessage message,
                    rc_editedFiles = rm_editedFiles message, rc_commitHash = rm_commitHash message,
                    rc_commitMessage = messageCommitMessage message usageReport,
                    rc_diff = rm_diff message, rc_usageReport = usageReport\<rparr>;
               p2 = closeCommandOutput ((uiSend (UiResponseCompleted d) p1)\<lparr>currentResponseMessageId := None\<rparr>);
               p3 = p2\<lparr>currentPromptResponses := currentPromptResponses p2 @ [d]\<rparr>
           in (currentResponseMessageId p3, p3))"

subsection \<open>Addable files\<close>

text \<open>
  \<open>new RegExp(searchRegex, 'i')\<close> is a parameter: \<open>None\<close> when the constructor throws a
  \<open>SyntaxError\<close>, else the \<open>test\<close> function of the expression. The \<open>catch\<close> only logs.
  \<^verbatim>\<open>
  public getAddableFiles(searchRegex?: string): string[] {
    const contextFilePaths = new Set(this.getContextFiles().map((file) => file.path));
    let files = this.allTrackedFiles.filter((file) => !contextFilePaths.has(file));

    if (searchRegex) {
      try {
        const regex = new RegExp(searchRegex, 'i');
        files = files.filter((file) => regex.test(file));
      } catch (error) {
        logger.error('Invalid regex for getAddableFiles', { searchRegex, error });
      }
    }

    return files;
  }
  \<close>
\<close>

definition getAddableFiles ::
    "(string \<Rightarrow> (string \<Rightarrow> bool) option) \<Rightarrow> string option \<Rightarrow> project \<Rightarrow> string list" where
  "getAddableFiles newRegExp searchRegex p =
     (let contextFilePaths = set (map cf_path (getContextFiles p));
          files = filter (\<lambda>file. file \<notin> contextFilePaths) (allTrackedFiles p)
      in case searchRegex of
           None \<Rightarrow> files
         | Some r \<Rightarrow>
             if r = [] then files
             else (case newRegExp r of
                     None \<Rightarrow> files
                   | Some test \<Rightarrow> filter test files))"

subsection \<open>A project and its runs\<close>

text \<open>The fields as the class initialises them; nothing has left the class yet.\<close>

definition newProject :: project where
  "newProject =
     \<lparr>process = None, connectors = [], currentCommand = None, currentQuestion = None,
      currentQuestionPromiseResolve = None, questionAnswers = Map.empty,
      allTrackedFiles = [], currentResponseMessageId = None, currentPromptId = None,
      currentPromptResponses = [], runPromptResolves = [], commandOutputs = Map.empty,
      mcpAgentTotalCost = 0, aiderTotalCost = 0, contextFiles = [], contextMessages = [],
      architectModel = None, historyFile = None, uuidCount = 0, tasks = [],
      sent = [], uiEvents = [], questionResolutions = []\<rparr>"

text \<open>
  \<open>addConnector(connector)\<close>, for a connector that listens neither to \<open>add-file\<close> nor to
  \<open>add-message\<close> and brings no history file: \<open>this.connectors.push(connector)\<close>.
\<close>

definition addConnector :: "connector \<Rightarrow> project \<Rightarrow> project" where
  "addConnector c p = p\<lparr>connectors := connectors p @ [c]\<rparr>"

text \<open>
  What can happen to a project, one atomic section each: calls from the host and from the
  connectors, and the completions the suspended invocations wait for. The exit of the
  worker process is one of them; its handler only logs:
  \<^verbatim>\<open>
    this.process.on('close', (code) => {
      logger.info('Aider process exited:', { baseDir: this.baseDir, code });
    });
  \<close>
\<close>

datatype event =
    EvRunAider "string option" nat
  | EvAddConnector connector
  | EvRunPrompt string "string option"
  | EvHistoryWritten nat "string option"
  | EvResponse responseMessage
  | EvPromptFinished
  | EvAskQuestion questionData nat
  | EvAnswerQuestion string "string option"
  | EvKillAider "string option"
  | EvClose "string option"
  | EvProcessClosed int

fun step :: "(string \<Rightarrow> usageReportData) \<Rightarrow> event \<Rightarrow> project \<Rightarrow> project" where
  "step parse (EvRunAider err pid) p = snd (runAider err pid p)"
| "step parse (EvAddConnector c) p = addConnector c p"
| "step parse (EvRunPrompt prompt mode) p = runPrompt prompt mode p"
| "step parse (EvHistoryWritten c written) p = historyWritten c written p"
| "step parse (EvResponse message) p = snd (processResponseMessage parse message p)"
| "step parse EvPromptFinished p = promptFinished p"
| "step parse (EvAskQuestion q w) p = snd (askQuestion q w p)"
| "step parse (EvAnswerQuestion answer userInput) p = snd (answerQuestion answer userInput p)"
| "step parse (EvKillAider err) p = snd (killAider err p)"
| "step parse (EvClose err) p = snd (close err p)"
| "step parse (EvProcessClosed code) p = p"

definition run :: "(string \<Rightarrow> usageReportData) \<Rightarrow> event list \<Rightarrow> project \<Rightarrow> project" where
  "run parse evs p = fold (step parse) evs p"

subsection \<open>Sample data\<close>

definition report1 :: usageReportData where
  "report1 = \<lparr>sentTokens = 2000, receivedTokens = 500, messageCost = 12 / 1000,
     report_aiderTotalCost = Some (3 / 2), report_mcpAgentTotalCost = None\<rparr>"

definition report2 :: usageReportData where
  "report2 = \<lparr>sentTokens = 10, receivedTokens = 20, messageCost = 1 / 1000,
     report_aiderTotalCost = Some 0, report_mcpAgentTotalCost = Some 4\<rparr>"

definition costly :: project where
  "costly = newProject\<lparr>mcpAgentTotalCost := 7, aiderTotalCost := 3\<rparr>"

definition question1 :: questionData where
  "question1 = \<lparr>q_text = ''Add file?'', q_subject = Some ''a.ts'', q_key = None, q_internal = False\<rparr>"

definition question2 :: questionData where
  "question2 = \<lparr>q_text = ''Run command?'', q_subject = None, q_key = Some ''run'', q_internal = False\<rparr>"

definition worker :: connector where
  "worker = \<lparr>connectorId = 7, listenTo = [ActPrompt, ActAnswerQuestion]\<rparr>"

text \<open>A project with one connector where \<open>question1\<close> has been asked and waits for its answer.\<close>

definition asked :: project where
  "asked = snd (askQuestion question1 1 (addConnector worker newProject))"

text \<open>The answer \<open>d\<close> (do not ask again) to \<open>question1\<close>: a remembered \<open>n\<close>.\<close>

definition remembered :: project where
  "remembered = snd (answerQuestion ''d'' None asked)"

definition tracked :: project where
  "tracked = newProject\<lparr>allTrackedFiles := [''a.ts'', ''b.ts'', ''c.md''],
     contextFiles := [\<lparr>cf_path = ''b.ts'', cf_readOnly = False\<rparr>]\<rparr>"

text \<open>A regular expression constructor that rejects an unclosed bracket.\<close>

definition sampleRegExp :: "string \<Rightarrow> (string \<Rightarrow> bool) option" where
  "sampleRegExp r = (if r = ''['' then None else Some (\<lambda>file. prefix r file))"

subsection \<open>Auxiliary notions for the properties\<close>

text \<open>What \<open>loadInputHistory\<close> returns, before reversal, from a state of its loop.\<close>

definition collected :: "string list \<times> string \<Rightarrow> string list" where
  "collected st = (if snd st \<noteq> [] then fst st @ [trim (snd st)] else fst st)"

definition fileText :: "string option \<Rightarrow> string" where
  "fileText f = (case f of None \<Rightarrow> [] | Some c \<Rightarrow> c)"

text \<open>Writing several prompts in a row, each with its time stamp.\<close>

definition addAllToInputHistory :: "(string \<times> string) list \<Rightarrow> project \<Rightarrow> project" where
  "addAllToInputHistory es p = fold (\<lambda>e. addToInputHistory (fst e) (snd e)) es p"




definition sampleParse :: "string \<Rightarrow> usageReportData" where
  "sampleParse s = report2"

definition sampleEntries :: "(string \<times> string) list" where
  "sampleEntries =
     [(''2025-05-01T10:00:00.000Z'', ''first''),
      (''2025-05-01T10:05:00.000Z'', ''second'' @ [nl] @ ''line'')]"

subsection \<open>Sample runs\<close>

text \<open>
  A worker is started and a connector attached. A first prompt is sent to it; while it
  runs, two more callers submit prompts; then the worker reports the end of the first
  prompt, and the history writes of the two callers complete.
\<close>

definition threeCallers :: "event list" where
  "threeCallers =
     [EvRunAider None 100, EvAddConnector worker,
      EvRunPrompt ''A'' None, EvHistoryWritten 0 (Some ''2025-05-01T10:00:00.000Z''),
      EvRunPrompt ''B'' None, EvRunPrompt ''C'' None,
      EvPromptFinished,
      EvHistoryWritten 1 (Some ''2025-05-01T10:01:00.000Z''),
      EvHistoryWritten 2 (Some ''2025-05-01T10:01:00.000Z'')]"

text \<open>The same start, up to the first prompt being active.\<close>

definition activePrompt :: "event list" where
  "activePrompt =
     [EvRunAider None 100, EvAddConnector worker,
      EvRunPrompt ''A'' None, EvHistoryWritten 0 (Some ''2025-05-01T10:00:00.000Z'')]"

definition active :: project where
  "active = run sampleParse activePrompt newProject"

section \<open>Properties\<close>

lemmas question_defs = askQuestion_def answerQuestion_def getQuestionKey_def str_or_def route_def
  findMessageConnectors_def uiSend_def toLowerCase_def lower_char_def upper_chars_def lower_chars_def

lemmas sample_defs = report1_def report2_def costly_def question1_def question2_def worker_def
  asked_def addConnector_def newProject_def

subsection \<open>Cost accounting\<close>

text \<open>
  C5. Each incoming usage report replaces a running total by the report's value exactly
  when the report carries a non-empty value for it (present and not zero, the test the
  code makes), and otherwise leaves that total as it was; the two totals are treated
  independently, so a report with a value for one total only leaves the other untouched.
  The new total never depends on the old one when it is replaced: nothing is summed.
\<close>

theorem updateTotalCosts_replaces:
  "(truthy_num (report_mcpAgentTotalCost r) \<longrightarrow>
      Some (mcpAgentTotalCost (updateTotalCosts r p)) = report_mcpAgentTotalCost r)
   \<and> (\<not> truthy_num (report_mcpAgentTotalCost r) \<longrightarrow>
      mcpAgentTotalCost (updateTotalCosts r p) = mcpAgentTotalCost p)
   \<and> (truthy_num (report_aiderTotalCost r) \<longrightarrow>
      Some (aiderTotalCost (updateTotalCosts r p)) = report_aiderTotalCost r)
   \<and> (\<not> truthy_num (report_aiderTotalCost r) \<longrightarrow>
      aiderTotalCost (updateTotalCosts r p) = aiderTotalCost p)"
  by (auto simp: updateTotalCosts_def truthy_num_def Let_def split: option.splits)

theorem updateTotalCosts_replaces_witness:
  "\<not> truthy_num (report_mcpAgentTotalCost report1) \<and> truthy_num (report_aiderTotalCost report1)
   \<and> mcpAgentTotalCost (updateTotalCosts report1 costly) = 7
   \<and> aiderTotalCost (updateTotalCosts report1 costly) = 3 / 2
   \<and> truthy_num (report_mcpAgentTotalCost report2) \<and> \<not> truthy_num (report_aiderTotalCost report2)
   \<and> mcpAgentTotalCost (updateTotalCosts report2 costly) = 4
   \<and> aiderTotalCost (updateTotalCosts report2 costly) = 3"
  using updateTotalCosts_replaces [of report1 costly] updateTotalCosts_replaces [of report2 costly]
  by (simp add: report1_def report2_def costly_def newProject_def truthy_num_def)

text \<open>
  C10. A usage report whose total for a category is absent or exactly zero leaves the
  running total of that category unchanged: zero never resets a recorded total.
\<close>

theorem updateTotalCosts_zero_keeps:
  "(report_mcpAgentTotalCost r = None \<or> report_mcpAgentTotalCost r = Some 0 \<longrightarrow>
      mcpAgentTotalCost (updateTotalCosts r p) = mcpAgentTotalCost p)
   \<and> (report_aiderTotalCost r = None \<or> report_aiderTotalCost r = Some 0 \<longrightarrow>
      aiderTotalCost (updateTotalCosts r p) = aiderTotalCost p)"
  by (auto simp: updateTotalCosts_def truthy_num_def Let_def)

theorem updateTotalCosts_zero_keeps_witness:
  "report_mcpAgentTotalCost report1 = None \<and> report_aiderTotalCost report2 = Some 0
   \<and> mcpAgentTotalCost (updateTotalCosts report1 costly) = 7
   \<and> aiderTotalCost (updateTotalCosts report2 costly) = 3"
  using updateTotalCosts_zero_keeps [of report1 costly] updateTotalCosts_zero_keeps [of report2 costly]
  by (simp add: report1_def report2_def costly_def newProject_def)

subsection \<open>Questions\<close>

text \<open>
  C9. Whenever \<open>answerQuestion\<close> is called while a question is open, no question is open
  afterwards, whatever the raw answer is and whether or not a waiter was resolved.
\<close>

theorem answerQuestion_clears:
  "currentQuestion p = Some q \<Longrightarrow> currentQuestion (snd (answerQuestion answer userInput p)) = None"
  by (simp add: answerQuestion_def Let_def route_def split: option.splits)

theorem answerQuestion_clears_witness:
  "currentQuestion asked = Some question1
   \<and> fst (answerQuestion ''maybe'' None asked)
   \<and> currentQuestion (snd (answerQuestion ''maybe'' None asked)) = None"
  using answerQuestion_clears [of asked question1 "''maybe''" None]
  by (simp add: asked_def question_defs addConnector_def newProject_def question1_def Let_def)



text \<open>
  C2. The claim that a question asked while another is pending neither replaces it nor
  loses its waiter fails: \<open>askQuestion\<close> has no guard. With \<open>question1\<close> pending on waiter
  1, asking \<open>question2\<close> makes waiter 2 the only one held; waiter 1 has not been resolved,
  and the next answer resolves waiter 2 alone and leaves nothing held.
\<close>

theorem askQuestion_discards_waiter:
  "currentQuestion asked = Some question1
   \<and> currentQuestionPromiseResolve asked = Some 1
   \<and> fst (askQuestion question2 2 asked) = Pending 2
   \<and> currentQuestion (snd (askQuestion question2 2 asked)) = Some question2
   \<and> currentQuestionPromiseResolve (snd (askQuestion question2 2 asked)) = Some 2
   \<and> questionResolutions (snd (askQuestion question2 2 asked)) = []
   \<and> questionResolutions (snd (answerQuestion ''y'' None (snd (askQuestion question2 2 asked)))) = [(2, Y, None)]
   \<and> currentQuestionPromiseResolve (snd (answerQuestion ''y'' None (snd (askQuestion question2 2 asked)))) = None"
  by (simp add: sample_defs question_defs Let_def)

text \<open>
  C2, as amended. The open question and the waiter are one slot each, so at most one of
  each is held, and \<open>askQuestion\<close> is never refused. For a question without a remembered
  answer the new question and the new waiter take the slots and nothing is resolved: a
  waiter held before is dropped. For a question that is not internal and has a
  remembered answer, no question is open and no waiter is held afterwards, and the waiter
  held before, if any, is resolved with the remembered answer.
\<close>

theorem askQuestion_single_slot:
  "(questionAnswers p (getQuestionKey q) = None \<longrightarrow>
      fst (askQuestion q w p) = Pending w
      \<and> currentQuestion (snd (askQuestion q w p)) = Some q
      \<and> currentQuestionPromiseResolve (snd (askQuestion q w p)) = Some w
      \<and> questionResolutions (snd (askQuestion q w p)) = questionResolutions p)
   \<and> (questionAnswers p (getQuestionKey q) = Some a \<and> \<not> q_internal q \<longrightarrow>
      currentQuestion (snd (askQuestion q w p)) = None
      \<and> currentQuestionPromiseResolve (snd (askQuestion q w p)) = None
      \<and> questionResolutions (snd (askQuestion q w p)) =
          questionResolutions p @
            (case currentQuestionPromiseResolve p of None \<Rightarrow> [] | Some v \<Rightarrow> [(v, a, None)]))"
  by (cases a) (auto simp: question_defs Let_def split: option.splits)

theorem askQuestion_single_slot_witness:
  "questionAnswers asked (getQuestionKey question2) = None
   \<and> currentQuestion (snd (askQuestion question2 2 asked)) = Some question2
   \<and> currentQuestionPromiseResolve (snd (askQuestion question2 2 asked)) = Some 2
   \<and> questionAnswers remembered (getQuestionKey question1) = Some N \<and> \<not> q_internal question1
   \<and> currentQuestion (snd (askQuestion question1 2 remembered)) = None
   \<and> currentQuestionPromiseResolve (snd (askQuestion question1 2 remembered)) = None"
  using askQuestion_single_slot [where p = asked and q = question2 and w = 2 and a = Y]
    askQuestion_single_slot [where p = remembered and q = question1 and w = 2 and a = N]
  by (simp add: remembered_def sample_defs question_defs Let_def)

subsection \<open>Addable files\<close>

text \<open>
  C8. A search pattern that is not a valid regular expression never makes
  \<open>getAddableFiles\<close> fail: the filter is skipped and the result is the whole list of
  addable files, the tracked files that are not context files.
\<close>

theorem getAddableFiles_invalid_regex:
  "newRegExp r = None \<Longrightarrow>
     getAddableFiles newRegExp (Some r) p =
       filter (\<lambda>file. file \<notin> set (map cf_path (getContextFiles p))) (allTrackedFiles p)"
  by (simp add: getAddableFiles_def Let_def)

theorem getAddableFiles_invalid_regex_witness:
  "sampleRegExp ''['' = None
   \<and> getAddableFiles sampleRegExp (Some ''['') tracked = [''a.ts'', ''c.md'']"
  using getAddableFiles_invalid_regex [of sampleRegExp "''[''" tracked]
  by (simp add: sampleRegExp_def tracked_def newProject_def getContextFiles_def)

subsection \<open>Input history\<close>

lemma split_nl_nonempty: "split_nl s \<noteq> []"
  by (induction s) (auto split: list.splits)

lemma split_nl_Cons_other:
  "c \<noteq> nl \<Longrightarrow> split_nl (c # s) = (c # hd (split_nl s)) # tl (split_nl s)"
  using split_nl_nonempty [of s] by (cases "split_nl s") auto

lemma split_nl_Cons_nl: "split_nl (nl # s) = [] # split_nl s"
  by simp

lemma split_nl_append_nl: "split_nl (a @ nl # b) = split_nl a @ split_nl b"
proof (induction a)
  case Nil
  show ?case by simp
next
  case (Cons c cs)
  show ?case
  proof (cases "c = nl")
    case True
    with Cons show ?thesis by simp
  next
    case False
    obtain l ls where ls: "split_nl cs = l # ls"
      using split_nl_nonempty [of cs] by (cases "split_nl cs") auto
    with False Cons show ?thesis by simp
  qed
qed

lemma split_nl_no_nl: "nl \<notin> set s \<Longrightarrow> split_nl s = [s]"
  by (induction s) auto

lemma split_nl_replace_nl:
  "split_nl (replace_nl m) = hd (split_nl m) # map ((#) (CHR ''+'')) (tl (split_nl m))"
proof (induction m)
  case Nil
  show ?case by (simp add: replace_nl_def)
next
  case (Cons c cs)
  have plus: "CHR ''+'' \<noteq> nl" by (simp add: nl_def)
  show ?case
  proof (cases "c = nl")
    case True
    have "replace_nl (c # cs) = nl # CHR ''+'' # replace_nl cs"
      using True by (simp add: replace_nl_def)
    moreover obtain l ls where "split_nl cs = l # ls"
      using split_nl_nonempty [of cs] by (cases "split_nl cs") auto
    ultimately show ?thesis
      using True Cons plus
      by (simp add: split_nl_Cons_nl split_nl_Cons_other del: split_nl.simps)
  next
    case False
    have "replace_nl (c # cs) = c # replace_nl cs"
      using False by (simp add: replace_nl_def)
    then show ?thesis
      using False Cons by (simp add: split_nl_Cons_other del: split_nl.simps)
  qed
qed

lemma split_nl_plus_replace_nl:
  "split_nl (CHR ''+'' # replace_nl m) = map ((#) (CHR ''+'')) (split_nl m)"
proof -
  have plus: "CHR ''+'' \<noteq> nl" by (simp add: nl_def)
  obtain l ls where ls: "split_nl m = l # ls"
    using split_nl_nonempty [of m] by (cases "split_nl m") auto
  show ?thesis
    by (simp add: split_nl_Cons_other [OF plus] split_nl_replace_nl ls del: split_nl.simps)
qed

lemma concat_split_nl: "concat (map (\<lambda>l. l @ [nl]) (split_nl m)) = m @ [nl]"
proof (induction m)
  case Nil
  show ?case by simp
next
  case (Cons c cs)
  obtain l ls where ls: "split_nl cs = l # ls"
    using split_nl_nonempty [of cs] by (cases "split_nl cs") auto
  with Cons show ?case by auto
qed

lemma history_lines_message:
  "history_lines (map ((#) (CHR ''+'')) ls) (h, cur) = (h, cur @ concat (map (\<lambda>l. l @ [nl]) ls))"
  by (induction ls arbitrary: cur) (simp_all add: history_lines_def)

lemma trim_append_nl: "trim (m @ [nl]) = trim m"
proof (cases "\<forall>c \<in> set m. is_ws c")
  case True
  have "is_ws nl" by (simp add: is_ws_def nl_def)
  with True have "\<forall>c \<in> set (m @ [nl]). is_ws c" by simp
  then have "dropWhile is_ws (m @ [nl]) = []"
    by (simp only: dropWhile_eq_Nil_conv)
  moreover from True have "dropWhile is_ws m = []"
    by (simp only: dropWhile_eq_Nil_conv)
  ultimately show ?thesis by (simp only: trim_def)
next
  case False
  then obtain x where "x \<in> set m" "\<not> is_ws x" by blast
  then have "dropWhile is_ws (m @ [nl]) = dropWhile is_ws m @ [nl]"
    by (rule dropWhile_append1)
  moreover have "is_ws nl" by (simp add: is_ws_def nl_def)
  ultimately show ?thesis by (simp add: trim_def)
qed

lemma entry_lines:
  assumes "nl \<notin> set ts"
  shows "split_nl (c @ formattedMessage ts m) =
           split_nl c @ [''# '' @ ts] @ map ((#) (CHR ''+'')) (split_nl m) @ [[]]"
proof -
  have hdr: "nl \<notin> set (''# '' @ ts)" using assms by (simp add: nl_def)
  have "c @ formattedMessage ts m = c @ nl # ((''# '' @ ts) @ nl # ((CHR ''+'' # replace_nl m) @ nl # []))"
    by (simp add: formattedMessage_def)
  then show ?thesis
    by (simp only: split_nl_append_nl split_nl_no_nl [OF hdr] split_nl_plus_replace_nl split_nl.simps(1))
qed

lemma collected_entry:
  assumes "nl \<notin> set ts"
  shows "collected (history_lines (split_nl (c @ formattedMessage ts m)) st) =
           collected (history_lines (split_nl c) st) @ [trim m]"
proof -
  obtain h cur where st: "history_lines (split_nl c) st = (h, cur)"
    by (cases "history_lines (split_nl c) st") auto
  have "history_lines (split_nl (c @ formattedMessage ts m)) st =
          history_lines ([''# '' @ ts] @ map ((#) (CHR ''+'')) (split_nl m) @ [[]]) (h, cur)"
    using st by (simp add: entry_lines [OF assms] history_lines_def)
  also have "\<dots> = history_lines [[]] (history_lines (map ((#) (CHR ''+'')) (split_nl m))
                      (history_lines [''# '' @ ts] (h, cur)))"
    by (simp add: history_lines_def)
  also have "history_lines [''# '' @ ts] (h, cur) = (collected (h, cur), [])"
    by (simp add: history_lines_def collected_def)
  also have "history_lines (map ((#) (CHR ''+'')) (split_nl m)) (collected (h, cur), []) =
               (collected (h, cur), m @ [nl])"
    by (simp add: history_lines_message concat_split_nl)
  also have "history_lines [[]] (collected (h, cur), m @ [nl]) = (collected (h, cur), m @ [nl])"
    by (simp add: history_lines_def)
  finally show ?thesis
    using st by (simp add: collected_def trim_append_nl)
qed

lemma loadInputHistory_collected:
  "loadInputHistory f = rev (collected (history_lines (split_nl (fileText f)) ([], [])))"
  by (cases f) (auto simp: loadInputHistory_def fileText_def collected_def history_lines_def
      split: prod.splits)

lemma fileText_appendFile: "fileText (appendFile d f) = fileText f @ d"
  by (cases f) (simp_all add: appendFile_def fileText_def)

lemma load_after_add:
  assumes "nl \<notin> set ts"
  shows "loadInputHistory (historyFile (addToInputHistory ts m p)) = trim m # loadInputHistory (historyFile p)"
  by (simp add: addToInputHistory_def uiSend_def Let_def loadInputHistory_collected
      fileText_appendFile collected_entry [OF assms])

lemma load_after_all:
  assumes "\<forall>e \<in> set es. nl \<notin> set (fst e)"
  shows "loadInputHistory (historyFile (addAllToInputHistory es p)) =
           rev (map (\<lambda>e. trim (snd e)) es) @ loadInputHistory (historyFile p)"
  using assms
proof (induction es rule: rev_induct)
  case Nil
  show ?case by (simp add: addAllToInputHistory_def)
next
  case (snoc e es)
  then show ?case by (simp add: addAllToInputHistory_def load_after_add)
qed

text \<open>
  C4. The history read back is not always exactly what was written: \<open>loadInputHistory\<close>
  trims every entry, so a prompt that starts with a blank comes back without it.
\<close>

theorem history_roundtrip_counterexample:
  "loadInputHistory (historyFile
      (addAllToInputHistory [(''2025-05-01T10:00:00.000Z'', '' fix'' @ [nl] @ ''it'')] newProject))
     = [''fix'' @ [nl] @ ''it'']
   \<and> loadInputHistory (historyFile
      (addAllToInputHistory [(''2025-05-01T10:00:00.000Z'', '' fix'' @ [nl] @ ''it'')] newProject))
     \<noteq> ['' fix'' @ [nl] @ ''it'']"
  by (simp add: addAllToInputHistory_def addToInputHistory_def uiSend_def newProject_def
      loadInputHistory_def appendFile_def formattedMessage_def replace_nl_def nl_def
      history_lines_def trim_def is_ws_def)

text \<open>
  C4, as amended. After any sequence of prompts has been written with
  \<open>addToInputHistory\<close> (time stamps hold no line feed), \<open>loadInputHistory\<close> returns those
  prompts, most recent first and before what the history held already, each with the
  white space at its two ends removed; line feeds inside a prompt are kept. Prompts
  without white space at their ends come back exactly.
\<close>

theorem history_roundtrip_trimmed:
  assumes "\<forall>e \<in> set es. nl \<notin> set (fst e)"
  shows "loadInputHistory (historyFile (addAllToInputHistory es p)) =
           rev (map (\<lambda>e. trim (snd e)) es) @ loadInputHistory (historyFile p)
    \<and> ((\<forall>e \<in> set es. trim (snd e) = snd e) \<longrightarrow>
         loadInputHistory (historyFile (addAllToInputHistory es p)) =
           rev (map snd es) @ loadInputHistory (historyFile p))"
proof -
  have "(\<forall>e \<in> set es. trim (snd e) = snd e) \<Longrightarrow> map (\<lambda>e. trim (snd e)) es = map snd es"
    by (induction es) auto
  then show ?thesis
    using load_after_all [OF assms, of p] by auto
qed

theorem history_roundtrip_trimmed_witness:
  "nl \<notin> set ''2025-05-01T10:00:00.000Z'' \<and> nl \<notin> set ''2025-05-01T10:05:00.000Z''
   \<and> trim ''first'' = ''first'' \<and> trim (''second'' @ [nl] @ ''line'') = ''second'' @ [nl] @ ''line''
   \<and> loadInputHistory (historyFile (addAllToInputHistory sampleEntries newProject)) =
       [''second'' @ [nl] @ ''line'', ''first'']"
  using history_roundtrip_trimmed [of sampleEntries newProject]
  by (simp add: sampleEntries_def newProject_def loadInputHistory_def trim_def is_ws_def nl_def)

subsection \<open>Completed responses\<close>



lemma digits_nonempty: "digits n \<noteq> []"
  by (subst digits.simps) simp








subsection \<open>Prompts\<close>

lemmas run_defs = run_def runAider_def killAider_def close_def runPrompt_def historyWritten_def
  sendPrompt_def promptFinished_def closeCommandOutput_def getArchitectModel_def
  addUserMessage_def addLogMessage_def addContextMessage_def addResponseMessages_def
  addToInputHistory_def appendFile_def formattedMessage_def replace_nl_def nl_def
  loadInputHistory_def history_lines_def trim_def is_ws_def

text \<open>
  C1. Prompts are meant to reach the worker one at a time, a later caller waiting for
  \<open>promptFinished\<close> of the active one. The class does not achieve it when two callers
  wait: one \<open>promptFinished\<close> releases both, neither looks at \<open>currentPromptId\<close> again,
  and both go on to \<open>sendPrompt\<close>. In the sample run the prompt of caller 1 is active
  (identifier 1) when the prompt of caller 2 is handed to the connector, and both wait in
  \<open>runPromptResolves\<close> for the same end of prompt.
\<close>

theorem prompts_interleaved:
  "currentPromptId (run sampleParse (take 8 threeCallers) newProject) = Some 1
   \<and> sent (run sampleParse (take 8 threeCallers) newProject) =
       [(7, PromptMessage ''A'' None None (Some 0) False),
        (7, PromptMessage ''B'' None None (Some 1) False)]
   \<and> sent (run sampleParse threeCallers newProject) =
       [(7, PromptMessage ''A'' None None (Some 0) False),
        (7, PromptMessage ''B'' None None (Some 1) False),
        (7, PromptMessage ''C'' None None (Some 2) False)]
   \<and> runPromptResolves (run sampleParse threeCallers newProject) = [PromptWaiter 1, PromptWaiter 2]
   \<and> tasks (run sampleParse threeCallers newProject) =
       [Returned [], AwaitResponses ''B'', AwaitResponses ''C'']"
  by (simp add: threeCallers_def run_defs sample_defs question_defs Let_def)

text \<open>
  Two callers that find no prompt running are not held apart either: the first is still
  writing the history, \<open>currentPromptId\<close> is not yet set, and the second passes the test.
\<close>

lemma idle_callers_both_routed:
  "sent (run sampleParse
      [EvRunAider None 100, EvAddConnector worker, EvRunPrompt ''A'' None, EvRunPrompt ''B'' None,
       EvHistoryWritten 0 None, EvHistoryWritten 1 None] newProject) =
     [(7, PromptMessage ''A'' None None (Some 0) False),
      (7, PromptMessage ''B'' None None (Some 1) False)]"
  by (simp add: run_defs sample_defs question_defs Let_def)

subsection \<open>Stopping the worker\<close>

lemma fold_addResponseMessages_fields:
  "tasks (fold addResponseMessages rs p) = tasks p"
  "runPromptResolves (fold addResponseMessages rs p) = runPromptResolves p"
  "currentQuestion (fold addResponseMessages rs p) = currentQuestion p"
  "currentCommand (fold addResponseMessages rs p) = currentCommand p"
  "currentPromptId (fold addResponseMessages rs p) = currentPromptId p"
  "currentResponseMessageId (fold addResponseMessages rs p) = currentResponseMessageId p"
  "currentPromptResponses (fold addResponseMessages rs p) = currentPromptResponses p"
  "process (fold addResponseMessages rs p) = process p"
  by (induction rs arbitrary: p;
      simp add: addResponseMessages_def addContextMessage_def Let_def split: option.splits)+

lemma resume_fields:
  "length (tasks (resume rs r p)) = length (tasks p)"
  "runPromptResolves (resume rs r p) = runPromptResolves p"
  "currentQuestion (resume rs r p) = currentQuestion p"
  "currentCommand (resume rs r p) = currentCommand p"
  "currentPromptId (resume rs r p) = currentPromptId p"
  "currentResponseMessageId (resume rs r p) = currentResponseMessageId p"
  "currentPromptResponses (resume rs r p) = currentPromptResponses p"
  "process (resume rs r p) = process p"
  by (cases r; simp add: fold_addResponseMessages_fields addContextMessage_def split: task.splits)+

lemma fold_resume_fields:
  "length (tasks (fold (resume rs) rl p)) = length (tasks p)"
  "runPromptResolves (fold (resume rs) rl p) = runPromptResolves p"
  "currentQuestion (fold (resume rs) rl p) = currentQuestion p"
  "currentCommand (fold (resume rs) rl p) = currentCommand p"
  "currentPromptId (fold (resume rs) rl p) = currentPromptId p"
  "currentResponseMessageId (fold (resume rs) rl p) = currentResponseMessageId p"
  "currentPromptResponses (fold (resume rs) rl p) = currentPromptResponses p"
  "process (fold (resume rs) rl p) = process p"
  by (induction rl arbitrary: p; simp add: resume_fields)+

lemma resume_Returned:
  "c < length (tasks p) \<Longrightarrow> tasks p ! c = Returned v \<Longrightarrow> tasks (resume rs r p) ! c = Returned v"
  by (cases r) (auto simp: fold_addResponseMessages_fields nth_list_update split: task.splits)

lemma resume_PromptWaiter:
  "c < length (tasks p) \<Longrightarrow> tasks p ! c = AwaitResponses prompt \<Longrightarrow>
     tasks (resume rs (PromptWaiter c) p) ! c = Returned rs"
  by (simp add: fold_addResponseMessages_fields)

lemma resume_AwaitResponses:
  "c < length (tasks p) \<Longrightarrow> tasks p ! c = AwaitResponses prompt \<Longrightarrow> r \<noteq> PromptWaiter c \<Longrightarrow>
     tasks (resume rs r p) ! c = AwaitResponses prompt"
  by (cases r) (auto simp: fold_addResponseMessages_fields nth_list_update split: task.splits)

lemma fold_resume_Returned:
  "c < length (tasks p) \<Longrightarrow> tasks p ! c = Returned v \<Longrightarrow>
     tasks (fold (resume rs) rl p) ! c = Returned v"
  by (induction rl arbitrary: p) (simp_all add: resume_Returned resume_fields)

lemma fold_resume_PromptWaiter:
  "c < length (tasks p) \<Longrightarrow> tasks p ! c = AwaitResponses prompt \<Longrightarrow> PromptWaiter c \<in> set rl \<Longrightarrow>
     tasks (fold (resume rs) rl p) ! c = Returned rs"
proof (induction rl arbitrary: p)
  case Nil
  then show ?case by simp
next
  case (Cons r rl)
  show ?case
  proof (cases "r = PromptWaiter c")
    case True
    have "tasks (resume rs r p) ! c = Returned rs"
      using Cons.prems(1,2) True by (simp only: resume_PromptWaiter)
    then show ?thesis
      using Cons.prems(1) by (simp add: fold_resume_Returned resume_fields)
  next
    case False
    have "tasks (resume rs r p) ! c = AwaitResponses prompt"
      using Cons.prems(1,2) False by (rule resume_AwaitResponses)
    moreover have "PromptWaiter c \<in> set rl" using Cons.prems(3) False by auto
    ultimately show ?thesis
      using Cons.IH [of "resume rs r p"] Cons.prems(1) by (simp add: resume_fields)
  qed
qed

lemma killAider_success:
  assumes "process p = Some pid"
  shows "fst (killAider None p) = None"
    and "process (snd (killAider None p)) = None"
    and "runPromptResolves (snd (killAider None p)) = []"
    and "currentQuestion (snd (killAider None p)) = None"
    and "currentCommand (snd (killAider None p)) = None"
    and "currentPromptId (snd (killAider None p)) = None"
    and "currentResponseMessageId (snd (killAider None p)) = None"
    and "currentPromptResponses (snd (killAider None p)) = []"
  using assms by (simp_all add: killAider_def Let_def fold_resume_fields)

lemma killAider_returns_empty:
  assumes "process p = Some pid" and "PromptWaiter c \<in> set (runPromptResolves p)"
    and "c < length (tasks p)" and "tasks p ! c = AwaitResponses prompt"
  shows "tasks (snd (killAider None p)) ! c = Returned []"
  using assms by (simp add: killAider_def Let_def fold_resume_PromptWaiter)

text \<open>
  C3. Not every stop of the worker resolves the waiters and clears the state. With a
  prompt active, the exit of the worker process changes nothing (its handler only logs),
  and a \<open>killAider\<close> whose tree kill fails throws and leaves the waiter, the suspended
  caller and the prompt identifier as they were.
\<close>

theorem killAider_counterexample:
  "runPromptResolves active = [PromptWaiter 0] \<and> tasks active = [AwaitResponses ''A'']
   \<and> currentPromptId active = Some 0 \<and> process active = Some 100
   \<and> step sampleParse (EvProcessClosed 1) active = active
   \<and> fst (killAider (Some ''EPERM'') active) = Some ''EPERM''
   \<and> runPromptResolves (snd (killAider (Some ''EPERM'') active)) = [PromptWaiter 0]
   \<and> tasks (snd (killAider (Some ''EPERM'') active)) = [AwaitResponses ''A'']
   \<and> currentPromptId (snd (killAider (Some ''EPERM'') active)) = Some 0"
  by (simp add: active_def activePrompt_def run_defs sample_defs question_defs Let_def)

text \<open>
  C3, as amended. When a worker process is held and its tree kill succeeds, \<open>killAider\<close>,
  called directly or through \<open>close\<close>, throws nothing, empties the list of prompt waiters,
  and clears the process handle, the current question, the current command, the current
  prompt identifier, the current response message identifier and the buffered responses;
  every caller that awaits the responses of its prompt gets the empty list.
\<close>

theorem stop_resolves_and_clears:
  assumes "process p = Some pid" and "stop = killAider None \<or> stop = close None"
  shows "fst (stop p) = None
    \<and> process (snd (stop p)) = None
    \<and> runPromptResolves (snd (stop p)) = []
    \<and> currentQuestion (snd (stop p)) = None
    \<and> currentCommand (snd (stop p)) = None
    \<and> currentPromptId (snd (stop p)) = None
    \<and> currentResponseMessageId (snd (stop p)) = None
    \<and> currentPromptResponses (snd (stop p)) = []
    \<and> (\<forall>c prompt. PromptWaiter c \<in> set (runPromptResolves p) \<and> c < length (tasks p)
          \<and> tasks p ! c = AwaitResponses prompt \<longrightarrow>
          tasks (snd (stop p)) ! c = Returned [])"
proof -
  define q where "q = (if stop = killAider None then p else uiSend (UiClearProject True True) p)"
  have stop: "stop p = killAider None q"
    using assms(2) by (auto simp: q_def close_def)
  have same: "process q = Some pid" "runPromptResolves q = runPromptResolves p" "tasks q = tasks p"
    using assms(1) by (simp_all add: q_def uiSend_def)
  show ?thesis
    unfolding stop
    using killAider_success [OF same(1)] killAider_returns_empty [OF same(1)]
    by (simp add: same)
qed

theorem stop_resolves_and_clears_witness:
  "process active = Some 100
   \<and> PromptWaiter 0 \<in> set (runPromptResolves active) \<and> tasks active ! 0 = AwaitResponses ''A''
   \<and> currentPromptId active = Some 0
   \<and> runPromptResolves (snd (close None active)) = []
   \<and> currentPromptId (snd (close None active)) = None
   \<and> tasks (snd (close None active)) ! 0 = Returned []"
proof -
  have a: "process active = Some 100" "runPromptResolves active = [PromptWaiter 0]"
    "tasks active = [AwaitResponses ''A'']" "currentPromptId active = Some 0"
    by (simp_all add: active_def activePrompt_def run_defs sample_defs question_defs Let_def)
  from stop_resolves_and_clears [OF a(1), of "close None"] a show ?thesis
    by simp
qed

text \<open>
  The callers queued behind the active prompt are called back by the kill as well. Their
  callback drops the value, so they do not return: in the sample run, stopped while
  prompt A is active, callers 1 and 2 go on to write the history, and caller 1 then
  sends its prompt and waits for responses although no worker is held.
\<close>

lemma queued_callers_after_kill:
  "tasks (run sampleParse (take 6 threeCallers @ [EvKillAider None]) newProject) =
     [Returned [], AwaitHistoryWrite ''B'' None, AwaitHistoryWrite ''C'' None]
   \<and> process (run sampleParse (take 6 threeCallers @ [EvKillAider None, EvHistoryWritten 1 None]) newProject) = None
   \<and> currentPromptId (run sampleParse (take 6 threeCallers @ [EvKillAider None, EvHistoryWritten 1 None]) newProject) = Some 1
   \<and> runPromptResolves (run sampleParse (take 6 threeCallers @ [EvKillAider None, EvHistoryWritten 1 None]) newProject) =
       [PromptWaiter 1]"
  by (simp add: threeCallers_def run_defs sample_defs question_defs Let_def)

end
